theory Spec2Isabelle
  imports Complex_Main "HOL-Library.AList"
begin

section \<open>Python values\<close>

text \<open>
  The payloads the client handles are decoded JSON: \<^verbatim>\<open>response.json()\<close> in
  \<^verbatim>\<open>initialize_tokens\<close> and the dictionaries the capability functions return. A Python
  \<^verbatim>\<open>dict\<close> keeps its keys in insertion order and an assignment to an existing key keeps
  the key's position, so a dictionary is an association list: \<open>map_of\<close> is the lookup,
  \<open>AList.update\<close> the assignment \<^verbatim>\<open>d[k] = v\<close> and \<open>AList.delete\<close> the removal.
\<close>

datatype json =
    JNull
  | JBool bool
  | JInt int
  | JFloat real
  | JStr string
  | JArr "json list"
  | JObj "(string \<times> json) list"

type_synonym dict = "(string \<times> json) list"

text \<open>Python's truth value of a decoded JSON value (\<^verbatim>\<open>if x:\<close>, \<^verbatim>\<open>not x\<close>).\<close>

fun truthy :: "json \<Rightarrow> bool" where
  "truthy JNull = False"
| "truthy (JBool b) = b"
| "truthy (JInt i) = (i \<noteq> 0)"
| "truthy (JFloat r) = (r \<noteq> 0)"
| "truthy (JStr s) = (s \<noteq> [])"
| "truthy (JArr xs) = (xs \<noteq> [])"
| "truthy (JObj kvs) = (kvs \<noteq> [])"

text \<open>
  A credential is \<^verbatim>\<open>None\<close> or a string (\<^verbatim>\<open>config.get("api_key", None)\<close>); the
  empty string is present (\<^verbatim>\<open>is not None\<close>) and falsy.
\<close>

fun truthy_str :: "string option \<Rightarrow> bool" where
  "truthy_str None = False"
| "truthy_str (Some s) = (s \<noteq> [])"

text \<open>The class attribute \<^verbatim>\<open>tokens_response\<close> is \<^verbatim>\<open>None\<close> or decoded JSON.\<close>

fun truthy_opt :: "json option \<Rightarrow> bool" where
  "truthy_opt None = False"
| "truthy_opt (Some v) = truthy v"

datatype exn =
    TypeError
  | AttributeError
  | KeyError string
  | ModuleNotFoundError
  | RequestException string
  | AuthenticationError string
  | OtherError string

text \<open>
  \<^verbatim>\<open>x.get(k)\<close>: on a dictionary the value or \<^verbatim>\<open>None\<close>; any other decoded JSON value
  has no \<^verbatim>\<open>get\<close> and the call raises \<^verbatim>\<open>AttributeError\<close>.
\<close>

fun py_get :: "json \<Rightarrow> string \<Rightarrow> exn + json" where
  "py_get (JObj d) k = (case map_of d k of None \<Rightarrow> Inr JNull | Some v \<Rightarrow> Inr v)"
| "py_get _ k = Inl AttributeError"

text \<open>\<^verbatim>\<open>d[k]\<close> and \<^verbatim>\<open>d.pop(k)\<close> raise \<^verbatim>\<open>KeyError\<close> on a key that is not there.\<close>

definition py_item :: "dict \<Rightarrow> string \<Rightarrow> exn + json" where
  "py_item d k = (case map_of d k of None \<Rightarrow> Inl (KeyError k) | Some v \<Rightarrow> Inr v)"

definition py_pop :: "dict \<Rightarrow> string \<Rightarrow> exn + dict" where
  "py_pop d k = (case map_of d k of None \<Rightarrow> Inl (KeyError k) | Some v \<Rightarrow> Inr (AList.delete k d))"

section \<open>The process: class attributes and observable effects\<close>

text \<open>
  \<^verbatim>\<open>tokens_response\<close> and \<^verbatim>\<open>tokens_verified\<close> are attributes of the class
  \<^verbatim>\<open>DymoAPI\<close>, not of an instance: they belong to the process. The trace lists, oldest
  first, what the code does to the outside world: the call of \<^verbatim>\<open>requests.post\<close>, the call
  of a capability function of \<^verbatim>\<open>dymoapi.branches\<close> (which is where a capability request
  goes out), the update check, \<^verbatim>\<open>logging.error\<close> and \<^verbatim>\<open>print\<close>.
\<close>

datatype event =
    Post string json
  | Call string string "string option" json
  | Update_check
  | Log_error string
  | Print string

fun is_post :: "event \<Rightarrow> bool" where
  "is_post (Post url body) = True"
| "is_post _ = False"

fun is_network :: "event \<Rightarrow> bool" where
  "is_network (Post url body) = True"
| "is_network (Call m f k a) = True"
| "is_network Update_check = True"
| "is_network (Log_error m) = False"
| "is_network (Print m) = False"

record process =
  tokens_response :: "json option"
  tokens_verified :: bool
  trace :: "event list"

definition initial :: process where
  "initial = \<lparr>tokens_response = None, tokens_verified = False, trace = []\<rparr>"

definition emit :: "event \<Rightarrow> process \<Rightarrow> process" where
  "emit e s = s\<lparr>trace := trace s @ [e]\<rparr>"

definition posts :: "process \<Rightarrow> event list" where
  "posts s = filter is_post (trace s)"

definition network :: "process \<Rightarrow> event list" where
  "network s = filter is_network (trace s)"

section \<open>What the client is given\<close>

text \<open>
  The outcome of the verification request as the code sees it: \<^verbatim>\<open>requests.post\<close> raises
  a \<^verbatim>\<open>RequestException\<close> (no connection), or \<^verbatim>\<open>raise_for_status\<close> raises one (the
  \<^verbatim>\<open>HTTPError\<close> of an error status), or \<^verbatim>\<open>response.json()\<close> raises because the body
  is no JSON (which exception that is depends on the installed \<^verbatim>\<open>requests\<close>, so the
  outcome carries it), or \<^verbatim>\<open>response.json()\<close> gives the decoded body.
\<close>

datatype http_result =
    Post_raises string
  | Status_raises string
  | Json_raises exn
  | Json_body json

text \<open>
  The modules \<^verbatim>\<open>dymoapi.config\<close> and \<^verbatim>\<open>dymoapi.branches\<close> are parameters of the
  model: the base URL that \<^verbatim>\<open>set_base_url(local); get_base_url()\<close> selects, the remote
  service's answer to a verification request, which modules and functions
  \<^verbatim>\<open>importlib.import_module\<close> and \<^verbatim>\<open>getattr\<close> find, and what a capability function
  returns (a dictionary) or raises. A private function is called with the API key first,
  a public one without.
\<close>

record env =
  get_base_url :: "bool \<Rightarrow> string"
  post :: "string \<Rightarrow> json \<Rightarrow> http_result"
  has_module :: "string \<Rightarrow> bool"
  has_function :: "string \<Rightarrow> string \<Rightarrow> bool"
  run_function :: "string \<Rightarrow> string \<Rightarrow> string option \<Rightarrow> json \<Rightarrow> exn + dict"

text \<open>The constructor's \<^verbatim>\<open>config\<close> dictionary, each key absent (\<open>None\<close>) or given.\<close>

record config =
  cfg_root_api_key :: "string option"
  cfg_api_key :: "string option"
  cfg_server_email_config :: "json option"
  cfg_local :: "bool option"

text \<open>An instance of \<^verbatim>\<open>DymoAPI\<close>; \<open>JNull\<close> is \<^verbatim>\<open>None\<close>.\<close>

record dymo =
  root_api_key :: "string option"
  api_key :: "string option"
  server_email_config :: json
  local_server :: bool
  base_url :: string

section \<open>Token verification\<close>

text \<open>Lines 56 to 58: the bearer strings of the truthy credentials.\<close>

definition build_tokens :: "dymo \<Rightarrow> dict" where
  "build_tokens self =
     (let tokens = [];
          tokens = (case root_api_key self of
                      Some r \<Rightarrow> if r \<noteq> [] then AList.update ''root'' (JStr (''Bearer '' @ r)) tokens else tokens
                    | None \<Rightarrow> tokens);
          tokens = (case api_key self of
                      Some a \<Rightarrow> if a \<noteq> [] then AList.update ''private'' (JStr (''Bearer '' @ a)) tokens else tokens
                    | None \<Rightarrow> tokens)
      in tokens)"

definition tokens_url :: "dymo \<Rightarrow> string" where
  "tokens_url self = base_url self @ ''/v1/dvr/tokens''"

definition tokens_body :: "dict \<Rightarrow> json" where
  "tokens_body tokens = JObj [(''tokens'', JObj tokens)]"

text \<open>
  Lines 66 and 67, one credential: \<^verbatim>\<open>if cred and not data.get(key): raise
  AuthenticationError(msg)\<close>. The lookup is only made for a truthy credential.
\<close>

definition confirm :: "string option \<Rightarrow> json \<Rightarrow> string \<Rightarrow> string \<Rightarrow> exn + unit" where
  "confirm cred data key msg =
     (if truthy_str cred then
        (case py_get data key of
           Inl e \<Rightarrow> Inl e
         | Inr v \<Rightarrow> if \<not> truthy v then Inl (AuthenticationError msg) else Inr ())
      else Inr ())"

text \<open>Lines 63 to 67, the body of the \<^verbatim>\<open>try\<close> up to the two assignments.\<close>

definition verify :: "env \<Rightarrow> dymo \<Rightarrow> dict \<Rightarrow> exn + json" where
  "verify env self tokens =
     (case post env (tokens_url self) (tokens_body tokens) of
        Post_raises m \<Rightarrow> Inl (RequestException m)
      | Status_raises m \<Rightarrow> Inl (RequestException m)
      | Json_raises e \<Rightarrow> Inl e
      | Json_body data \<Rightarrow>
          (case confirm (root_api_key self) data ''root'' ''Invalid root token.'' of
             Inl e \<Rightarrow> Inl e
           | Inr u \<Rightarrow>
               (case confirm (api_key self) data ''private'' ''Invalid private token.'' of
                  Inl e \<Rightarrow> Inl e
                | Inr u \<Rightarrow> Inr data)))"

text \<open>
  \<^verbatim>\<open>except (requests.RequestException, AuthenticationError) as e\<close>: the message of an
  exception the clause catches.
\<close>

fun caught :: "exn \<Rightarrow> string option" where
  "caught (RequestException m) = Some m"
| "caught (AuthenticationError m) = Some m"
| "caught e = None"

text \<open>
  \<^verbatim>\<open>initialize_tokens\<close>. Every \<^verbatim>\<open>return\<close> of the source returns \<^verbatim>\<open>None\<close>
  (\<^verbatim>\<open>print\<close> and \<^verbatim>\<open>logging.error\<close> return it), so the value is \<open>Inr ()\<close> or the
  exception the \<^verbatim>\<open>except\<close> clause lets through.
\<close>

definition initialize_tokens :: "env \<Rightarrow> dymo \<Rightarrow> process \<Rightarrow> (exn + unit) \<times> process" where
  "initialize_tokens env self s =
     (if truthy_opt (tokens_response s) \<and> tokens_verified s
      then (Inr (), emit (Print ''[Dymo API] Using cached tokens response.'') s)
      else
        (let tokens = build_tokens self in
         if tokens = [] then (Inr (), s)
         else
           (let s1 = emit (Post (tokens_url self) (tokens_body tokens)) s in
            case verify env self tokens of
              Inr data \<Rightarrow>
                (Inr (), emit (Print ''[Dymo API] Tokens initialized successfully.'')
                           (s1\<lparr>tokens_response := Some data, tokens_verified := True\<rparr>))
            | Inl e \<Rightarrow>
                (case caught e of
                   Some m \<Rightarrow> (Inr (), emit (Log_error (''Token validation error: '' @ m)) s1)
                 | None \<Rightarrow> (Inl e, s1)))))"

section \<open>The constructor\<close>

text \<open>
  Modelled from the spec: \<^verbatim>\<open>check_for_updates\<close> of \<^verbatim>\<open>dymoapi.services.autoupload\<close>,
  which is not among the sources. The spec makes it a best-effort call to a remote source
  whose failures are ignored: it never raises and does not touch the token cache.
\<close>

definition check_for_updates :: "process \<Rightarrow> process" where
  "check_for_updates s = emit Update_check s"

text \<open>
  \<^verbatim>\<open>__init__\<close>, lines 38 to 44: \<^verbatim>\<open>config.get(key, default)\<close> for each field and the
  base URL for the chosen server.
\<close>

definition new_client :: "env \<Rightarrow> config \<Rightarrow> dymo" where
  "new_client env cfg =
     (let lcl = (case cfg_local cfg of None \<Rightarrow> False | Some b \<Rightarrow> b)
      in \<lparr>root_api_key = cfg_root_api_key cfg,
          api_key = cfg_api_key cfg,
          server_email_config = (case cfg_server_email_config cfg of None \<Rightarrow> JNull | Some c \<Rightarrow> c),
          local_server = lcl,
          base_url = get_base_url env lcl\<rparr>)"

text \<open>
  \<^verbatim>\<open>__init__\<close>, lines 45 and 46: the value is the new instance, or the exception that
  leaves the constructor.
\<close>

definition init :: "env \<Rightarrow> config \<Rightarrow> process \<Rightarrow> (exn + dymo) \<times> process" where
  "init env cfg s =
     (let self = new_client env cfg;
          s1 = check_for_updates s
      in if truthy_str (api_key self) then
           (case initialize_tokens env self s1 of
              (Inl e, s2) \<Rightarrow> (Inl e, s2)
            | (Inr u, s2) \<Rightarrow> (Inr self, s2))
         else (Inr self, s1))"

section \<open>Dispatch\<close>

text \<open>
  \<^verbatim>\<open>_get_function\<close> returns \<^verbatim>\<open>None\<close> (the value of \<^verbatim>\<open>logging.error\<close>) or a
  lambda that closes over the function found and, for a private one, the API key.
\<close>

datatype handler = Handler string string "string option"

definition get_function :: "env \<Rightarrow> dymo \<Rightarrow> string \<Rightarrow> string \<Rightarrow> process \<Rightarrow> (exn + handler option) \<times> process" where
  "get_function env self module_name function_name s =
     (if module_name = ''private'' \<and> api_key self = None
      then (Inr None, emit (Log_error ''Invalid private token.'') s)
      else if \<not> has_module env module_name then (Inl ModuleNotFoundError, s)
      else if \<not> has_function env module_name function_name then (Inl AttributeError, s)
      else if module_name = ''private''
      then (Inr (Some (Handler module_name function_name (api_key self))), s)
      else (Inr (Some (Handler module_name function_name None)), s))"

text \<open>
  Modelled from the spec: \<^verbatim>\<open>DotDict\<close> of \<^verbatim>\<open>dymoapi.utils.basics\<close>, which is not among
  the sources. The spec makes it a dictionary-like response promoted to attribute
  access: as a dictionary it is the one it was made from.
\<close>

definition DotDict :: "dict \<Rightarrow> dict" where
  "DotDict d = d"

text \<open>
  Calling what \<^verbatim>\<open>_get_function\<close> returned: \<^verbatim>\<open>None(...)\<close> raises \<^verbatim>\<open>TypeError\<close>;
  the lambda calls the capability function and wraps its result,
  \<^verbatim>\<open>DotDict(func(self.api_key, *args, **kwargs))\<close> or \<^verbatim>\<open>DotDict(func(*args, **kwargs))\<close>.
\<close>

fun call :: "env \<Rightarrow> handler option \<Rightarrow> json \<Rightarrow> process \<Rightarrow> (exn + dict) \<times> process" where
  "call env None arg s = (Inl TypeError, s)"
| "call env (Some (Handler m f k)) arg s =
     (case run_function env m f k arg of
        Inl e \<Rightarrow> Inl e
      | Inr d \<Rightarrow> Inr (DotDict d),
      emit (Call m f k arg) s)"

text \<open>\<^verbatim>\<open>self._get_function(module_name, function_name)(arg)\<close>, as every method writes it.\<close>

definition dispatch :: "env \<Rightarrow> dymo \<Rightarrow> string \<Rightarrow> string \<Rightarrow> json \<Rightarrow> process \<Rightarrow> (exn + dict) \<times> process" where
  "dispatch env self module_name function_name arg s =
     (case get_function env self module_name function_name s of
        (Inl e, s1) \<Rightarrow> (Inl e, s1)
      | (Inr h, s1) \<Rightarrow> call env h arg s1)"

section \<open>The methods\<close>

text \<open>
  The classes of \<^verbatim>\<open>response_models\<close> a method can call. Every method ends in
  \<^verbatim>\<open>return M(**kw)\<close>, and the value of a method in this model is that call,
  \<open>Instance M kw\<close>: which class is called and with which keyword arguments. It is not
  the object the call makes. Whether \<^verbatim>\<open>pydantic.BaseModel\<close> accepts the arguments or
  raises \<^verbatim>\<open>ValidationError\<close>, and which of them the object then holds, is the library's
  and is left out; no statement about the contents of a returned object rests on
  \<open>Instance\<close>.
\<close>

datatype model =
    DataVerifierResponse
  | SendEmailResponse
  | SRNGResponse
  | PrayerTimesResponse
  | SatinizerResponse
  | IsValidPwdResponse
  | UrlEncryptResponse

datatype pyobj = Instance model dict

text \<open>
  The names that class \<^verbatim>\<open>DataVerifierIp\<close> annotates (\<^verbatim>\<open>response_models.py\<close>, lines 170
  to 196), in the order of the source.
\<close>

definition DataVerifierIp_annotations :: "string list" where
  "DataVerifierIp_annotations =
     [''valid'', ''type'', ''_class'', ''fraud'', ''ip'', ''continent'', ''continentCode'',
      ''country'', ''countryCode'', ''region'', ''regionName'', ''city'', ''district'',
      ''zipCode'', ''lat'', ''lon'', ''timezone'', ''offset'', ''currency'', ''isp'', ''org'',
      ''_as'', ''asname'', ''mobile'', ''proxy'', ''hosting'', ''plugins'']"

text \<open>
  A \<^verbatim>\<open>pydantic.BaseModel\<close> takes an annotated name as a field unless the name starts
  with an underscore; a keyword argument that names no field is ignored.
\<close>

fun field_name :: "string \<Rightarrow> bool" where
  "field_name [] = False"
| "field_name (c # cs) = (c \<noteq> CHR ''_'')"

definition model_fields :: "string list \<Rightarrow> string list" where
  "model_fields annotations = filter field_name annotations"

text \<open>
  Lines 100 to 104 of \<^verbatim>\<open>is_valid_data\<close>. \<^verbatim>\<open>response["ip"]\<close> is one object, changed in
  place by the four statements; the response holds it under the same key.
\<close>

definition rename_ip :: "dict \<Rightarrow> exn + dict" where
  "rename_ip response =
     (case py_get (case map_of response ''ip'' of None \<Rightarrow> JObj [] | Some v \<Rightarrow> v) ''as'' of
        Inl e \<Rightarrow> Inl e
      | Inr a \<Rightarrow>
          if truthy a then
            (case map_of response ''ip'' of
               Some (JObj ip) \<Rightarrow>
                 (case py_item ip ''as'' of
                    Inl e \<Rightarrow> Inl e
                  | Inr v \<Rightarrow>
                      (let ip1 = AList.update ''_as'' v ip in
                       case py_item ip1 ''class'' of
                         Inl e \<Rightarrow> Inl e
                       | Inr c \<Rightarrow>
                           (let ip2 = AList.update ''_class'' c ip1 in
                            case py_pop ip2 ''as'' of
                              Inl e \<Rightarrow> Inl e
                            | Inr ip3 \<Rightarrow>
                                (case py_pop ip3 ''class'' of
                                   Inl e \<Rightarrow> Inl e
                                 | Inr ip4 \<Rightarrow> Inr (AList.update ''ip'' (JObj ip4) response)))))
             | _ \<Rightarrow> Inl (KeyError ''ip''))
          else Inr response)"

definition is_valid_data :: "env \<Rightarrow> dymo \<Rightarrow> json \<Rightarrow> process \<Rightarrow> (exn + pyobj option) \<times> process" where
  "is_valid_data env self data s =
     (case dispatch env self ''private'' ''is_valid_data'' data s of
        (Inl e, s1) \<Rightarrow> (Inl e, s1)
      | (Inr response, s1) \<Rightarrow>
          (case rename_ip response of
             Inl e \<Rightarrow> (Inl e, s1)
           | Inr response' \<Rightarrow> (Inr (Some (Instance DataVerifierResponse response')), s1)))"

text \<open>
  \<^verbatim>\<open>send_email\<close>: the guard of line 140 returns \<^verbatim>\<open>None\<close>; otherwise the argument is
  \<^verbatim>\<open>{**data, "serverEmailConfig": self.server_email_config}\<close>.
\<close>

definition send_email :: "env \<Rightarrow> dymo \<Rightarrow> dict \<Rightarrow> process \<Rightarrow> (exn + pyobj option) \<times> process" where
  "send_email env self data s =
     (if \<not> truthy (server_email_config self) \<and> \<not> truthy_str (root_api_key self)
      then (Inr None, emit (Log_error ''You must configure the email client settings.'') s)
      else
        (case dispatch env self ''private'' ''send_email''
                (JObj (AList.update ''serverEmailConfig'' (server_email_config self) data)) s of
           (Inl e, s1) \<Rightarrow> (Inl e, s1)
         | (Inr response, s1) \<Rightarrow> (Inr (Some (Instance DataVerifierResponse response)), s1)))"

definition get_random :: "env \<Rightarrow> dymo \<Rightarrow> dict \<Rightarrow> process \<Rightarrow> (exn + pyobj option) \<times> process" where
  "get_random env self data s =
     (case dispatch env self ''private'' ''get_random'' (JObj data) s of
        (Inl e, s1) \<Rightarrow> (Inl e, s1)
      | (Inr response, s1) \<Rightarrow> (Inr (Some (Instance DataVerifierResponse response)), s1))"

text \<open>The four public methods differ in the function's name and the class constructed.\<close>

definition public_method :: "string \<Rightarrow> model \<Rightarrow> env \<Rightarrow> dymo \<Rightarrow> json \<Rightarrow> process \<Rightarrow> (exn + pyobj option) \<times> process" where
  "public_method function_name M env self data s =
     (case dispatch env self ''public'' function_name data s of
        (Inl e, s1) \<Rightarrow> (Inl e, s1)
      | (Inr response, s1) \<Rightarrow> (Inr (Some (Instance M response)), s1))"

definition get_prayer_times :: "env \<Rightarrow> dymo \<Rightarrow> json \<Rightarrow> process \<Rightarrow> (exn + pyobj option) \<times> process" where
  "get_prayer_times = public_method ''get_prayer_times'' PrayerTimesResponse"

definition satinizer :: "env \<Rightarrow> dymo \<Rightarrow> json \<Rightarrow> process \<Rightarrow> (exn + pyobj option) \<times> process" where
  "satinizer = public_method ''satinizer'' SatinizerResponse"

definition is_valid_pwd :: "env \<Rightarrow> dymo \<Rightarrow> json \<Rightarrow> process \<Rightarrow> (exn + pyobj option) \<times> process" where
  "is_valid_pwd = public_method ''is_valid_pwd'' IsValidPwdResponse"

definition new_url_encrypt :: "env \<Rightarrow> dymo \<Rightarrow> json \<Rightarrow> process \<Rightarrow> (exn + pyobj option) \<times> process" where
  "new_url_encrypt = public_method ''new_url_encrypt'' UrlEncryptResponse"

section \<open>Runs of a process\<close>

text \<open>
  What a program can do with the library: construct a client or call a method of one.
  The instance of a method call is any record of the instance's type, which covers the
  constructed ones. Each action meets an environment of its own, so the remote service
  may answer differently from one call to the next.
\<close>

datatype action =
    New config
  | Initialize_tokens dymo
  | Is_valid_data dymo json
  | Send_email dymo dict
  | Get_random dymo dict
  | Get_prayer_times dymo json
  | Satinizer dymo json
  | Is_valid_pwd dymo json
  | New_url_encrypt dymo json

fun exec :: "env \<Rightarrow> action \<Rightarrow> process \<Rightarrow> process" where
  "exec env (New cfg) s = snd (init env cfg s)"
| "exec env (Initialize_tokens self) s = snd (initialize_tokens env self s)"
| "exec env (Is_valid_data self d) s = snd (is_valid_data env self d s)"
| "exec env (Send_email self d) s = snd (send_email env self d s)"
| "exec env (Get_random self d) s = snd (get_random env self d s)"
| "exec env (Get_prayer_times self d) s = snd (get_prayer_times env self d s)"
| "exec env (Satinizer self d) s = snd (satinizer env self d s)"
| "exec env (Is_valid_pwd self d) s = snd (is_valid_pwd env self d s)"
| "exec env (New_url_encrypt self d) s = snd (new_url_encrypt env self d s)"

fun run :: "(env \<times> action) list \<Rightarrow> process \<Rightarrow> process" where
  "run [] s = s"
| "run ((env, a) # as) s = run as (exec env a s)"

inductive reachable :: "process \<Rightarrow> bool" where
  start: "reachable initial"
| step: "reachable s \<Longrightarrow> reachable (exec env a s)"

text \<open>The two states of the cache that a process can be in.\<close>

definition unverified :: "process \<Rightarrow> bool" where
  "unverified s = (tokens_response s = None \<and> \<not> tokens_verified s)"

definition verified :: "process \<Rightarrow> bool" where
  "verified s = (truthy_opt (tokens_response s) \<and> tokens_verified s)"

text \<open>
  What a method call leaves alone: the two class attributes and the verification requests
  sent so far.
\<close>

definition frame :: "process \<Rightarrow> process \<Rightarrow> bool" where
  "frame s s1 = (tokens_response s1 = tokens_response s \<and> tokens_verified s1 = tokens_verified s \<and> posts s1 = posts s)"

section \<open>Concrete inputs\<close>

text \<open>
  An environment whose remote service gives one fixed answer to the verification request
  and whose capability functions all return one fixed payload; a client and a constructor
  configuration with the given root and API credentials. They serve to evaluate the
  model at concrete inputs.
\<close>

definition example_env :: "http_result \<Rightarrow> exn + dict \<Rightarrow> env" where
  "example_env answer payload =
     \<lparr>get_base_url = (\<lambda>l. if l then ''http://localhost:3050'' else ''https://api.tpeoficial.com''),
      post = (\<lambda>url body. answer),
      has_module = (\<lambda>m. m = ''private'' \<or> m = ''public''),
      has_function = (\<lambda>m f. True),
      run_function = (\<lambda>m f k a. payload)\<rparr>"

definition example_client :: "string option \<Rightarrow> string option \<Rightarrow> dymo" where
  "example_client r a =
     \<lparr>root_api_key = r, api_key = a, server_email_config = JNull, local_server = False,
      base_url = ''https://api.tpeoficial.com''\<rparr>"

definition example_config :: "string option \<Rightarrow> string option \<Rightarrow> config" where
  "example_config r a =
     \<lparr>cfg_root_api_key = r, cfg_api_key = a, cfg_server_email_config = None, cfg_local = None\<rparr>"

lemmas eval_defs = example_env_def example_client_def example_config_def DotDict_def
  initialize_tokens_def build_tokens_def verify_def confirm_def tokens_url_def tokens_body_def
  initial_def emit_def posts_def network_def init_def new_client_def check_for_updates_def
  get_function_def dispatch_def is_valid_data_def send_email_def get_random_def rename_ip_def
  py_item_def py_pop_def public_method_def

section \<open>The cache is unverified or verified\<close>

lemma emit_cache [simp]:
  "tokens_response (emit e s) = tokens_response s"
  "tokens_verified (emit e s) = tokens_verified s"
  "trace (emit e s) = trace s @ [e]"
  by (simp_all add: emit_def)

lemma check_for_updates_cache [simp]:
  "tokens_response (check_for_updates s) = tokens_response s"
  "tokens_verified (check_for_updates s) = tokens_verified s"
  "trace (check_for_updates s) = trace s @ [Update_check]"
  by (simp_all add: check_for_updates_def)

lemma posts_emit [simp]:
  "posts (emit e s) = (if is_post e then posts s @ [e] else posts s)"
  by (simp add: posts_def)

lemma posts_check_for_updates [simp]: "posts (check_for_updates s) = posts s"
  by (simp add: posts_def)

lemma network_emit [simp]:
  "network (emit e s) = (if is_network e then network s @ [e] else network s)"
  by (simp add: network_def)

lemma posts_update_cache [simp]:
  "posts (s\<lparr>tokens_response := r, tokens_verified := v\<rparr>) = posts s"
  by (simp add: posts_def)

lemma confirm_truthy:
  "confirm cred data key msg = Inr u \<Longrightarrow> truthy_str cred \<Longrightarrow> truthy data"
  by (cases data) (auto simp: confirm_def split: if_splits option.splits)

lemma build_tokens_nonempty:
  "build_tokens self \<noteq> [] \<Longrightarrow> truthy_str (root_api_key self) \<or> truthy_str (api_key self)"
  by (auto simp: build_tokens_def split: option.splits if_splits)

lemma verify_truthy:
  assumes "verify env self tokens = Inr data" and "build_tokens self \<noteq> []"
  shows "truthy data"
  using assms build_tokens_nonempty[OF assms(2)]
  by (auto simp: verify_def split: http_result.splits sum.splits dest: confirm_truthy)

lemma initialize_tokens_cached:
  "verified s \<Longrightarrow> initialize_tokens env self s = (Inr (), emit (Print ''[Dymo API] Using cached tokens response.'') s)"
  by (simp add: initialize_tokens_def verified_def)

lemma initialize_tokens_state:
  "unverified s \<or> verified s \<Longrightarrow> unverified (snd (initialize_tokens env self s)) \<or> verified (snd (initialize_tokens env self s))"
  by (auto simp: initialize_tokens_def unverified_def verified_def Let_def
      split: sum.splits option.splits dest: verify_truthy)

lemma get_function_frame: "get_function env self m f s = (r, s1) \<Longrightarrow> frame s s1"
  by (auto simp: get_function_def frame_def split: if_splits)

lemma call_frame: "call env h a s = (r, s1) \<Longrightarrow> frame s s1"
  by (cases "(env, h, a, s)" rule: call.cases) (auto simp: frame_def)

lemma dispatch_frame: "dispatch env self m f a s = (r, s1) \<Longrightarrow> frame s s1"
  by (auto simp: dispatch_def frame_def split: prod.splits sum.splits
      dest!: get_function_frame call_frame)

lemma frame_refl [simp]: "frame s s"
  by (simp add: frame_def)

lemma frame_emit_log [simp]: "frame s (emit (Log_error m) s)"
  by (simp add: frame_def)

lemma is_valid_data_frame: "frame s (snd (is_valid_data env self d s))"
proof (cases "dispatch env self ''private'' ''is_valid_data'' d s")
  case (Pair r s1)
  then have "frame s s1" by (rule dispatch_frame)
  then show ?thesis by (simp add: is_valid_data_def Pair split: sum.splits)
qed

lemma send_email_frame: "frame s (snd (send_email env self d s))"
proof (cases "dispatch env self ''private'' ''send_email''
    (JObj (AList.update ''serverEmailConfig'' (server_email_config self) d)) s")
  case (Pair r s1)
  then have "frame s s1" by (rule dispatch_frame)
  then show ?thesis by (simp add: send_email_def Pair split: sum.splits)
qed

lemma get_random_frame: "frame s (snd (get_random env self d s))"
proof (cases "dispatch env self ''private'' ''get_random'' (JObj d) s")
  case (Pair r s1)
  then have "frame s s1" by (rule dispatch_frame)
  then show ?thesis by (simp add: get_random_def Pair split: sum.splits)
qed

lemma public_method_frame: "frame s (snd (public_method f M env self d s))"
proof (cases "dispatch env self ''public'' f d s")
  case (Pair r s1)
  then have "frame s s1" by (rule dispatch_frame)
  then show ?thesis by (simp add: public_method_def Pair split: sum.splits)
qed

lemma new_client_api_key [simp]: "api_key (new_client env cfg) = cfg_api_key cfg"
  by (simp add: new_client_def Let_def)

lemma init_state_eq:
  "snd (init env cfg s) =
     (if truthy_str (api_key (new_client env cfg))
      then snd (initialize_tokens env (new_client env cfg) (check_for_updates s))
      else check_for_updates s)"
  by (cases "initialize_tokens env (new_client env cfg) (check_for_updates s)")
    (auto simp: init_def Let_def split: sum.splits)

lemma init_state:
  "unverified s \<or> verified s \<Longrightarrow> unverified (snd (init env cfg s)) \<or> verified (snd (init env cfg s))"
proof -
  assume a: "unverified s \<or> verified s"
  let ?s1 = "check_for_updates s"
  have "unverified ?s1 \<or> verified ?s1" using a by (simp add: unverified_def verified_def)
  from initialize_tokens_state[OF this, of env "new_client env cfg"]
  show ?thesis using a
    by (auto simp: init_def Let_def unverified_def verified_def split: prod.splits sum.splits)
qed

lemma exec_state:
  "unverified s \<or> verified s \<Longrightarrow> unverified (exec env a s) \<or> verified (exec env a s)"
proof (cases a)
  case (New cfg) then show "unverified s \<or> verified s \<Longrightarrow> ?thesis" using init_state[of s env cfg] by simp
next
  case (Initialize_tokens self) then show "unverified s \<or> verified s \<Longrightarrow> ?thesis"
    using initialize_tokens_state[of s env self] by simp
next
  case (Is_valid_data self d) then show "unverified s \<or> verified s \<Longrightarrow> ?thesis"
    using is_valid_data_frame[of s env self d] by (simp add: frame_def unverified_def verified_def)
next
  case (Send_email self d) then show "unverified s \<or> verified s \<Longrightarrow> ?thesis"
    using send_email_frame[of s env self d] by (simp add: frame_def unverified_def verified_def)
next
  case (Get_random self d) then show "unverified s \<or> verified s \<Longrightarrow> ?thesis"
    using get_random_frame[of s env self d] by (simp add: frame_def unverified_def verified_def)
next
  case (Get_prayer_times self d) then show "unverified s \<or> verified s \<Longrightarrow> ?thesis"
    using public_method_frame[of s _ _ env self d] by (simp add: frame_def unverified_def verified_def get_prayer_times_def)
next
  case (Satinizer self d) then show "unverified s \<or> verified s \<Longrightarrow> ?thesis"
    using public_method_frame[of s _ _ env self d] by (simp add: frame_def unverified_def verified_def satinizer_def)
next
  case (Is_valid_pwd self d) then show "unverified s \<or> verified s \<Longrightarrow> ?thesis"
    using public_method_frame[of s _ _ env self d] by (simp add: frame_def unverified_def verified_def is_valid_pwd_def)
next
  case (New_url_encrypt self d) then show "unverified s \<or> verified s \<Longrightarrow> ?thesis"
    using public_method_frame[of s _ _ env self d] by (simp add: frame_def unverified_def verified_def new_url_encrypt_def)
qed

lemma reachable_state: "reachable s \<Longrightarrow> unverified s \<or> verified s"
proof (induction rule: reachable.induct)
  case start
  show ?case by (simp add: unverified_def initial_def)
next
  case (step s env a)
  from step.IH show ?case by (rule exec_state)
qed

lemma reachable_verified: "reachable s \<Longrightarrow> tokens_verified s \<Longrightarrow> verified s"
  using reachable_state[of s] by (auto simp: unverified_def)

lemma reachable_unverified: "reachable s \<Longrightarrow> \<not> tokens_verified s \<Longrightarrow> unverified s"
  using reachable_state[of s] by (auto simp: verified_def)


section \<open>At most one verification request\<close>

text \<open>
  C1. In every state a process can reach, once \<^verbatim>\<open>tokens_verified\<close> is true a call of
  \<^verbatim>\<open>initialize_tokens\<close> returns at line 55: it prints that the cached response is
  used, sends nothing and changes neither attribute. So when a first call verifies the
  tokens, it and any second call together send exactly one verification request,
  whatever the second client's credentials and whatever the service would answer.
\<close>

theorem initialize_tokens_once:
  assumes "reachable s"
  shows "(tokens_verified s \<longrightarrow>
            initialize_tokens env self s =
              (Inr (), emit (Print ''[Dymo API] Using cached tokens response.'') s))
       \<and> (\<not> tokens_verified s \<and> tokens_verified (snd (initialize_tokens env1 self1 s)) \<longrightarrow>
            length (posts (snd (initialize_tokens env2 self2 (snd (initialize_tokens env1 self1 s)))))
              = Suc (length (posts s)))"
proof (intro conjI impI)
  assume "tokens_verified s"
  with assms have "verified s" by (rule reachable_verified)
  then show "initialize_tokens env self s =
      (Inr (), emit (Print ''[Dymo API] Using cached tokens response.'') s)"
    by (rule initialize_tokens_cached)
next
  let ?s1 = "snd (initialize_tokens env1 self1 s)"
  assume a: "\<not> tokens_verified s \<and> tokens_verified ?s1"
  have r1: "reachable ?s1"
    using reachable.step[OF assms, of env1 "Initialize_tokens self1"] by simp
  with a have "verified ?s1" by (simp add: reachable_verified)
  then have second: "posts (snd (initialize_tokens env2 self2 ?s1)) = posts ?s1"
    by (simp add: initialize_tokens_cached)
  have first: "length (posts ?s1) = Suc (length (posts s))"
    using a by (auto simp: initialize_tokens_def Let_def split: if_splits sum.splits option.splits)
  show "length (posts (snd (initialize_tokens env2 self2 ?s1))) = Suc (length (posts s))"
    by (simp add: second first)
qed

theorem initialize_tokens_once_witness:
  "tokens_verified (snd (initialize_tokens
       (example_env (Json_body (JObj [(''private'', JBool True)])) (Inr []))
       (example_client None (Some ''key-1'')) initial))
   \<and> initialize_tokens (example_env (Post_raises ''down'') (Inr []))
       (example_client None (Some ''key-2''))
       (snd (initialize_tokens
          (example_env (Json_body (JObj [(''private'', JBool True)])) (Inr []))
          (example_client None (Some ''key-1'')) initial))
     = (Inr (), emit (Print ''[Dymo API] Using cached tokens response.'')
          (snd (initialize_tokens
             (example_env (Json_body (JObj [(''private'', JBool True)])) (Inr []))
             (example_client None (Some ''key-1'')) initial)))
   \<and> \<not> tokens_verified initial
   \<and> length (posts (snd (initialize_tokens (example_env (Post_raises ''down'') (Inr []))
       (example_client None (Some ''key-2''))
       (snd (initialize_tokens
          (example_env (Json_body (JObj [(''private'', JBool True)])) (Inr []))
          (example_client None (Some ''key-1'')) initial))))) = 1"
proof -
  let ?e1 = "example_env (Json_body (JObj [(''private'', JBool True)])) (Inr [])"
  let ?c1 = "example_client None (Some ''key-1'')"
  let ?s1 = "snd (initialize_tokens ?e1 ?c1 initial)"
  have v: "tokens_verified ?s1" by (simp add: eval_defs)
  have n: "\<not> tokens_verified initial" by (simp add: initial_def)
  have p0: "posts initial = []" by (simp add: initial_def posts_def)
  have r1: "reachable ?s1"
    using reachable.step[OF reachable.start, of ?e1 "Initialize_tokens ?c1"] by simp
  show ?thesis
    using initialize_tokens_once[OF r1, of "example_env (Post_raises ''down'') (Inr [])"
        "example_client None (Some ''key-2'')"]
      initialize_tokens_once[OF reachable.start, of _ _ ?e1 ?c1
        "example_env (Post_raises ''down'') (Inr [])" "example_client None (Some ''key-2'')"]
      v n p0
    by simp
qed

section \<open>Failures of the verification are logged, not raised\<close>

text \<open>
  C3, as amended. Whatever the credentials and the state of the cache: when
  \<^verbatim>\<open>requests.post\<close> raises (a network error), when \<^verbatim>\<open>raise_for_status\<close> raises (an
  error status), when \<^verbatim>\<open>response.json()\<close> raises a \<^verbatim>\<open>RequestException\<close>, or when the
  body is a JSON object that does not confirm a credential that was supplied (the root
  token, the private token), \<^verbatim>\<open>initialize_tokens\<close> returns normally; where it sent the
  request it logs \<^verbatim>\<open>Token validation error: ...\<close> after it and does nothing else; and
  the constructor returns the new client.
\<close>

theorem verification_failure_is_logged:
  assumes answer: "post env (tokens_url self) (tokens_body (build_tokens self)) = answer"
    and failure: "(\<exists>m. answer = Post_raises m) \<or> (\<exists>m. answer = Status_raises m)
       \<or> (\<exists>m. answer = Json_raises (RequestException m))
       \<or> (\<exists>d. answer = Json_body (JObj d)
             \<and> (truthy_str (root_api_key self) \<and> \<not> truthy_opt (map_of d ''root'')
                \<or> truthy_str (api_key self) \<and> \<not> truthy_opt (map_of d ''private'')))"
  shows "fst (initialize_tokens env self s) = Inr ()
       \<and> (\<not> (truthy_opt (tokens_response s) \<and> tokens_verified s) \<and> build_tokens self \<noteq> [] \<longrightarrow>
            (\<exists>m. snd (initialize_tokens env self s) =
               emit (Log_error (''Token validation error: '' @ m))
                 (emit (Post (tokens_url self) (tokens_body (build_tokens self))) s)))
       \<and> (self = new_client env cfg \<longrightarrow> fst (init env cfg s) = Inr self)"
proof -
  let ?raises = "\<exists>e m. verify env self (build_tokens self) = Inl e \<and> caught e = Some m"
  have v: ?raises
    using failure
  proof (elim disjE exE)
    fix m assume "answer = Post_raises m"
    then show ?raises using answer by (simp add: verify_def)
  next
    fix m assume "answer = Status_raises m"
    then show ?raises using answer by (simp add: verify_def)
  next
    fix m assume "answer = Json_raises (RequestException m)"
    then show ?raises using answer by (simp add: verify_def)
  next
    fix d assume "answer = Json_body (JObj d)
      \<and> (truthy_str (root_api_key self) \<and> \<not> truthy_opt (map_of d ''root'')
         \<or> truthy_str (api_key self) \<and> \<not> truthy_opt (map_of d ''private''))"
    then show ?raises using answer
      by (auto simp: verify_def confirm_def split: option.splits sum.splits)
  qed
  then obtain e m where e: "verify env self (build_tokens self) = Inl e" "caught e = Some m"
    by blast
  have i: "fst (initialize_tokens env self s) = Inr ()" for s
    using e by (simp add: initialize_tokens_def Let_def)
  have l: "\<not> (truthy_opt (tokens_response s) \<and> tokens_verified s) \<and> build_tokens self \<noteq> [] \<longrightarrow>
      (\<exists>m. snd (initialize_tokens env self s) =
         emit (Log_error (''Token validation error: '' @ m))
           (emit (Post (tokens_url self) (tokens_body (build_tokens self))) s))"
    using e by (auto simp: initialize_tokens_def Let_def)
  have c: "self = new_client env cfg \<longrightarrow> fst (init env cfg s) = Inr self"
    using i[of "check_for_updates s"]
    by (auto simp: init_def Let_def split: prod.splits sum.splits)
  from i l c show ?thesis by blast
qed

theorem verification_failure_is_logged_witness:
  "init (example_env (Json_body (JObj [(''root'', JBool True), (''private'', JBool False)])) (Inr []))
     (example_config (Some ''root-1'') (Some ''bad-key'')) initial
   = (Inr (new_client (example_env (Json_body (JObj [(''root'', JBool True), (''private'', JBool False)])) (Inr []))
             (example_config (Some ''root-1'') (Some ''bad-key''))),
      \<lparr>tokens_response = None, tokens_verified = False,
       trace = [Update_check,
                Post ''https://api.tpeoficial.com/v1/dvr/tokens''
                  (JObj [(''tokens'', JObj [(''root'', JStr ''Bearer root-1''), (''private'', JStr ''Bearer bad-key'')])]),
                Log_error ''Token validation error: Invalid private token.'']\<rparr>)"
proof -
  let ?env = "example_env (Json_body (JObj [(''root'', JBool True), (''private'', JBool False)])) (Inr [])"
  let ?cfg = "example_config (Some ''root-1'') (Some ''bad-key'')"
  let ?self = "new_client ?env ?cfg"
  let ?d = "[(''root'', JBool True), (''private'', JBool False)]"
  have answer: "post ?env (tokens_url ?self) (tokens_body (build_tokens ?self)) = Json_body (JObj ?d)"
    by (simp add: example_env_def)
  have rejected: "truthy_str (api_key ?self) \<and> \<not> truthy_opt (map_of ?d ''private'')"
    by (simp add: example_config_def)
  have failure: "(\<exists>m. Json_body (JObj ?d) = Post_raises m) \<or> (\<exists>m. Json_body (JObj ?d) = Status_raises m)
       \<or> (\<exists>m. Json_body (JObj ?d) = Json_raises (RequestException m))
       \<or> (\<exists>d. Json_body (JObj ?d) = Json_body (JObj d)
             \<and> (truthy_str (root_api_key ?self) \<and> \<not> truthy_opt (map_of d ''root'')
                \<or> truthy_str (api_key ?self) \<and> \<not> truthy_opt (map_of d ''private'')))"
    using rejected by blast
  have "fst (init ?env ?cfg initial) = Inr ?self"
    using verification_failure_is_logged[OF answer failure, of initial ?cfg] by simp
  moreover have "snd (init ?env ?cfg initial) =
      \<lparr>tokens_response = None, tokens_verified = False,
       trace = [Update_check,
                Post ''https://api.tpeoficial.com/v1/dvr/tokens''
                  (JObj [(''tokens'', JObj [(''root'', JStr ''Bearer root-1''), (''private'', JStr ''Bearer bad-key'')])]),
                Log_error ''Token validation error: Invalid private token.'']\<rparr>"
    by (simp add: eval_defs)
  ultimately show ?thesis by (simp add: prod_eq_iff)
qed

text \<open>
  C3 as stated fails. The \<^verbatim>\<open>except\<close> clause names two classes, and a key can go
  unconfirmed without either being raised: when the body is JSON but no object (here
  \<^verbatim>\<open>false\<close>), \<^verbatim>\<open>data.get\<close> raises \<^verbatim>\<open>AttributeError\<close>, which leaves
  \<^verbatim>\<open>initialize_tokens\<close> and the constructor: constructing the client raises.
\<close>

theorem verification_non_object_body_counterexample:
  "truthy_str (cfg_api_key (example_config None (Some ''bad-key'')))
   \<and> \<not> truthy (JBool False)
   \<and> init (example_env (Json_body (JBool False)) (Inr []))
        (example_config None (Some ''bad-key'')) initial
     = (Inl AttributeError,
        \<lparr>tokens_response = None, tokens_verified = False,
         trace = [Update_check,
                  Post ''https://api.tpeoficial.com/v1/dvr/tokens''
                    (JObj [(''tokens'', JObj [(''private'', JStr ''Bearer bad-key'')])])]\<rparr>)"
  by (simp add: eval_defs)

section \<open>The two transitions of the cache\<close>

lemma initialize_tokens_failure:
  assumes "\<not> (truthy_opt (tokens_response s) \<and> tokens_verified s)"
    and "build_tokens self \<noteq> []"
    and "verify env self (build_tokens self) = Inl e"
  shows "tokens_response (snd (initialize_tokens env self s)) = tokens_response s"
    and "tokens_verified (snd (initialize_tokens env self s)) = tokens_verified s"
    and "posts (snd (initialize_tokens env self s)) =
           posts s @ [Post (tokens_url self) (tokens_body (build_tokens self))]"
  using assms by (auto simp: initialize_tokens_def Let_def split: option.splits)

lemma initialize_tokens_success:
  assumes "\<not> (truthy_opt (tokens_response s) \<and> tokens_verified s)"
    and "build_tokens self \<noteq> []"
    and "verify env self (build_tokens self) = Inr data"
  shows "tokens_response (snd (initialize_tokens env self s)) = Some data"
    and "tokens_verified (snd (initialize_tokens env self s))"
    and "posts (snd (initialize_tokens env self s)) =
           posts s @ [Post (tokens_url self) (tokens_body (build_tokens self))]"
  using assms by (auto simp: initialize_tokens_def Let_def)

lemma init_frame_verified:
  assumes "verified s"
  shows "frame s (snd (init env cfg s))" and "fst (init env cfg s) = Inr (new_client env cfg)"
proof -
  have "verified (check_for_updates s)" using assms by (simp add: verified_def)
  then have i: "initialize_tokens env (new_client env cfg) (check_for_updates s) =
      (Inr (), emit (Print ''[Dymo API] Using cached tokens response.'') (check_for_updates s))"
    by (rule initialize_tokens_cached)
  show "frame s (snd (init env cfg s))"
    by (simp add: init_def Let_def i frame_def)
  show "fst (init env cfg s) = Inr (new_client env cfg)"
    by (simp add: init_def Let_def i)
qed

lemma exec_frame_verified:
  assumes "verified s"
  shows "frame s (exec env a s)"
proof (cases a)
  case (New cfg)
  then show ?thesis using init_frame_verified(1)[OF assms] by simp
next
  case (Initialize_tokens self)
  then show ?thesis using initialize_tokens_cached[OF assms, of env self] by (simp add: frame_def)
next
  case (Is_valid_data self d)
  then show ?thesis by (simp add: is_valid_data_frame)
next
  case (Send_email self d)
  then show ?thesis by (simp add: send_email_frame)
next
  case (Get_random self d)
  then show ?thesis by (simp add: get_random_frame)
next
  case (Get_prayer_times self d)
  then show ?thesis by (simp add: get_prayer_times_def public_method_frame)
next
  case (Satinizer self d)
  then show ?thesis by (simp add: satinizer_def public_method_frame)
next
  case (Is_valid_pwd self d)
  then show ?thesis by (simp add: is_valid_pwd_def public_method_frame)
next
  case (New_url_encrypt self d)
  then show ?thesis by (simp add: new_url_encrypt_def public_method_frame)
qed

lemma frame_verified: "frame s s1 \<Longrightarrow> verified s \<Longrightarrow> verified s1"
  by (simp add: frame_def verified_def)

lemma frame_trans: "frame s s1 \<Longrightarrow> frame s1 s2 \<Longrightarrow> frame s s2"
  by (simp add: frame_def)

lemma run_frame_verified: "verified s \<Longrightarrow> frame s (run as s)"
proof (induction as arbitrary: s)
  case Nil
  show ?case by simp
next
  case (Cons ea as)
  obtain env a where ea: "ea = (env, a)" by (cases ea)
  have f: "frame s (exec env a s)" using Cons.prems by (rule exec_frame_verified)
  then have "verified (exec env a s)" using Cons.prems by (rule frame_verified)
  then have "frame (exec env a s) (run as (exec env a s))" by (rule Cons.IH)
  with f show ?case by (simp add: ea frame_trans)
qed

text \<open>
  C6. From a reachable state with \<^verbatim>\<open>tokens_verified\<close> false and a client with at
  least one truthy credential: if the body of the \<^verbatim>\<open>try\<close> raises (caught or not), the
  cached response was and stays \<^verbatim>\<open>None\<close> and \<^verbatim>\<open>tokens_verified\<close> stays false, and
  the next construction of a client with a truthy API key sends a verification request
  again. If the body of the \<^verbatim>\<open>try\<close> succeeds, then after every further run of
  constructor and method calls \<^verbatim>\<open>tokens_verified\<close> is true, the cached response is the
  one stored, and no further verification request has been sent.
\<close>

theorem verification_transitions:
  assumes "reachable s" and "\<not> tokens_verified s" and "build_tokens self \<noteq> []"
  shows "(\<forall>e. verify env self (build_tokens self) = Inl e \<longrightarrow>
            tokens_response s = None
          \<and> tokens_response (snd (initialize_tokens env self s)) = None
          \<and> \<not> tokens_verified (snd (initialize_tokens env self s))
          \<and> (\<forall>env' cfg'. truthy_str (cfg_api_key cfg') \<longrightarrow>
                posts (snd (init env' cfg' (snd (initialize_tokens env self s)))) =
                  posts (snd (initialize_tokens env self s))
                    @ [Post (tokens_url (new_client env' cfg'))
                         (tokens_body (build_tokens (new_client env' cfg')))]))
       \<and> (\<forall>data. verify env self (build_tokens self) = Inr data \<longrightarrow>
            (\<forall>as. tokens_verified (run as (snd (initialize_tokens env self s)))
                \<and> tokens_response (run as (snd (initialize_tokens env self s))) = Some data
                \<and> posts (run as (snd (initialize_tokens env self s))) =
                    posts (snd (initialize_tokens env self s))))"
proof (intro conjI allI impI)
  have u: "unverified s" using assms(1,2) by (rule reachable_unverified)
  then have nc: "\<not> (truthy_opt (tokens_response s) \<and> tokens_verified s)"
    by (simp add: unverified_def)
  let ?s1 = "snd (initialize_tokens env self s)"
  {
    fix e assume e: "verify env self (build_tokens self) = Inl e"
    show "tokens_response s = None" using u by (simp add: unverified_def)
    show r: "tokens_response ?s1 = None"
      using initialize_tokens_failure(1)[OF nc assms(3) e] u by (simp add: unverified_def)
    show v: "\<not> tokens_verified ?s1"
      using initialize_tokens_failure(2)[OF nc assms(3) e] assms(2) by simp
    fix env' :: env and cfg' :: config
    assume t: "truthy_str (cfg_api_key cfg')"
    let ?self' = "new_client env' cfg'"
    have k: "truthy_str (api_key ?self')" using t by simp
    then have b: "build_tokens ?self' \<noteq> []"
      by (cases "root_api_key ?self'"; cases "api_key ?self'") (auto simp: build_tokens_def)
    have "posts (snd (initialize_tokens env' ?self' (check_for_updates ?s1))) =
        posts ?s1 @ [Post (tokens_url ?self') (tokens_body (build_tokens ?self'))]"
      using v b by (auto simp: initialize_tokens_def Let_def split: sum.splits option.splits)
    then show "posts (snd (init env' cfg' ?s1)) =
        posts ?s1 @ [Post (tokens_url ?self') (tokens_body (build_tokens ?self'))]"
      using k by (simp add: init_state_eq)
  }
  {
    fix data as assume d: "verify env self (build_tokens self) = Inr data"
    have "reachable ?s1"
      using reachable.step[OF assms(1), of env "Initialize_tokens self"] by simp
    moreover have tv: "tokens_verified ?s1"
      by (rule initialize_tokens_success(2)[OF nc assms(3) d])
    ultimately have "verified ?s1" by (rule reachable_verified)
    then have f: "frame ?s1 (run as ?s1)" by (rule run_frame_verified)
    show "tokens_verified (run as ?s1)" using f tv by (simp add: frame_def)
    show "tokens_response (run as ?s1) = Some data"
      using f initialize_tokens_success(1)[OF nc assms(3) d] by (simp add: frame_def)
    show "posts (run as ?s1) = posts ?s1" using f by (simp add: frame_def)
  }
qed

theorem verification_transitions_witness:
  "verify (example_env (Status_raises ''401 Client Error'') (Inr []))
       (example_client None (Some ''key-1'')) (build_tokens (example_client None (Some ''key-1'')))
     = Inl (RequestException ''401 Client Error'')
   \<and> tokens_response (snd (initialize_tokens (example_env (Status_raises ''401 Client Error'') (Inr []))
       (example_client None (Some ''key-1'')) initial)) = None
   \<and> \<not> tokens_verified (snd (initialize_tokens (example_env (Status_raises ''401 Client Error'') (Inr []))
       (example_client None (Some ''key-1'')) initial))
   \<and> length (posts (snd (init (example_env (Post_raises ''down'') (Inr []))
       (example_config None (Some ''key-1''))
       (snd (initialize_tokens (example_env (Status_raises ''401 Client Error'') (Inr []))
          (example_client None (Some ''key-1'')) initial))))) = 2
   \<and> verify (example_env (Json_body (JObj [(''private'', JBool True)])) (Inr []))
       (example_client None (Some ''key-1'')) (build_tokens (example_client None (Some ''key-1'')))
     = Inr (JObj [(''private'', JBool True)])
   \<and> tokens_response (run [(example_env (Json_body (JObj [])) (Inr []), New (example_config (Some ''r'') (Some ''key-2'')))]
       (snd (initialize_tokens (example_env (Json_body (JObj [(''private'', JBool True)])) (Inr []))
          (example_client None (Some ''key-1'')) initial)))
     = Some (JObj [(''private'', JBool True)])"
proof -
  let ?c = "example_client None (Some ''key-1'')"
  let ?bad = "example_env (Status_raises ''401 Client Error'') (Inr [])"
  let ?good = "example_env (Json_body (JObj [(''private'', JBool True)])) (Inr [])"
  have n: "\<not> tokens_verified initial" by (simp add: initial_def)
  have t: "build_tokens ?c \<noteq> []" by (simp add: eval_defs)
  have bad: "verify ?bad ?c (build_tokens ?c) = Inl (RequestException ''401 Client Error'')"
    by (simp add: eval_defs)
  have good: "verify ?good ?c (build_tokens ?c) = Inr (JObj [(''private'', JBool True)])"
    by (simp add: eval_defs)
  have p: "posts (snd (initialize_tokens ?bad ?c initial))
      = [Post (tokens_url ?c) (tokens_body (build_tokens ?c))]"
    by (simp add: eval_defs)
  note failure = verification_transitions[OF reachable.start n t, of ?bad,
      THEN conjunct1, THEN spec, THEN mp, OF bad]
  note success = verification_transitions[OF reachable.start n t, of ?good,
      THEN conjunct2, THEN spec, THEN mp, OF good, THEN spec,
      of "[(example_env (Json_body (JObj [])) (Inr []), New (example_config (Some ''r'') (Some ''key-2'')))]"]
  have k: "truthy_str (cfg_api_key (example_config None (Some ''key-1'')))"
    by (simp add: example_config_def)
  have retry: "posts (snd (init (example_env (Post_raises ''down'') (Inr []))
        (example_config None (Some ''key-1'')) (snd (initialize_tokens ?bad ?c initial))))
      = posts (snd (initialize_tokens ?bad ?c initial))
        @ [Post (tokens_url (new_client (example_env (Post_raises ''down'') (Inr []))
                   (example_config None (Some ''key-1''))))
             (tokens_body (build_tokens (new_client (example_env (Post_raises ''down'') (Inr []))
                   (example_config None (Some ''key-1'')))))]"
    using failure k by blast
  show ?thesis
    using failure success retry bad good by (simp add: p)
qed

section \<open>The verification request\<close>

text \<open>
  C7. The tokens map holds \<^verbatim>\<open>root\<close> only for a configured root key and then with the
  value \<^verbatim>\<open>Bearer <root>\<close>, \<^verbatim>\<open>private\<close> only for a configured API key and then with
  the value \<^verbatim>\<open>Bearer <api>\<close>, both for truthy keys, and no other key. When the cache
  does not short-circuit and the map is not empty, the call sends exactly one request:
  a POST to \<^verbatim>\<open>{base_url}/v1/dvr/tokens\<close> with the body \<^verbatim>\<open>{"tokens": map}\<close>. With
  neither credential configured the map is empty and no request is sent.
\<close>

theorem verification_request:
  shows "(\<forall>v. map_of (build_tokens self) ''root'' = Some v \<longrightarrow>
            (\<exists>r. root_api_key self = Some r \<and> v = JStr (''Bearer '' @ r)))
       \<and> (\<forall>v. map_of (build_tokens self) ''private'' = Some v \<longrightarrow>
            (\<exists>a. api_key self = Some a \<and> v = JStr (''Bearer '' @ a)))
       \<and> (truthy_str (root_api_key self) \<longrightarrow> map_of (build_tokens self) ''root'' \<noteq> None)
       \<and> (truthy_str (api_key self) \<longrightarrow> map_of (build_tokens self) ''private'' \<noteq> None)
       \<and> fst ` set (build_tokens self) \<subseteq> {''root'', ''private''}
       \<and> (\<not> (truthy_opt (tokens_response s) \<and> tokens_verified s) \<and> build_tokens self \<noteq> [] \<longrightarrow>
            posts (snd (initialize_tokens env self s)) =
              posts s @ [Post (base_url self @ ''/v1/dvr/tokens'')
                           (JObj [(''tokens'', JObj (build_tokens self))])])
       \<and> (root_api_key self = None \<and> api_key self = None \<longrightarrow>
            build_tokens self = [] \<and> posts (snd (initialize_tokens env self s)) = posts s
          \<and> (\<not> (truthy_opt (tokens_response s) \<and> tokens_verified s) \<longrightarrow>
                initialize_tokens env self s = (Inr (), s)))"
proof -
  have b: "build_tokens self =
      (case root_api_key self of
         None \<Rightarrow> []
       | Some r \<Rightarrow> if r = [] then [] else [(''root'', JStr (''Bearer '' @ r))])
      @ (case api_key self of
           None \<Rightarrow> []
         | Some a \<Rightarrow> if a = [] then [] else [(''private'', JStr (''Bearer '' @ a))])"
    by (cases "root_api_key self"; cases "api_key self") (simp_all add: build_tokens_def)
  have 1: "\<forall>v. map_of (build_tokens self) ''root'' = Some v \<longrightarrow>
      (\<exists>r. root_api_key self = Some r \<and> v = JStr (''Bearer '' @ r))"
    by (cases "root_api_key self"; cases "api_key self") (auto simp: b split: if_splits)
  have 2: "\<forall>v. map_of (build_tokens self) ''private'' = Some v \<longrightarrow>
      (\<exists>a. api_key self = Some a \<and> v = JStr (''Bearer '' @ a))"
    by (cases "root_api_key self"; cases "api_key self") (auto simp: b split: if_splits)
  have 3: "truthy_str (root_api_key self) \<longrightarrow> map_of (build_tokens self) ''root'' \<noteq> None"
    by (cases "root_api_key self"; cases "api_key self") (auto simp: b)
  have 4: "truthy_str (api_key self) \<longrightarrow> map_of (build_tokens self) ''private'' \<noteq> None"
    by (cases "root_api_key self"; cases "api_key self") (auto simp: b)
  have 5: "fst ` set (build_tokens self) \<subseteq> {''root'', ''private''}"
    by (cases "root_api_key self"; cases "api_key self") (auto simp: b)
  have 6: "\<not> (truthy_opt (tokens_response s) \<and> tokens_verified s) \<and> build_tokens self \<noteq> [] \<longrightarrow>
      posts (snd (initialize_tokens env self s)) =
        posts s @ [Post (base_url self @ ''/v1/dvr/tokens'')
                     (JObj [(''tokens'', JObj (build_tokens self))])]"
    by (auto simp: initialize_tokens_def Let_def tokens_url_def tokens_body_def
        split: sum.splits option.splits)
  have 7: "root_api_key self = None \<and> api_key self = None \<longrightarrow>
      build_tokens self = [] \<and> posts (snd (initialize_tokens env self s)) = posts s
      \<and> (\<not> (truthy_opt (tokens_response s) \<and> tokens_verified s) \<longrightarrow>
            initialize_tokens env self s = (Inr (), s))"
    by (auto simp: initialize_tokens_def Let_def b)
  from 1 2 3 4 5 6 7 show ?thesis by blast
qed

theorem verification_request_witness:
  "build_tokens (example_client (Some ''root-1'') (Some ''key-1''))
     = [(''root'', JStr ''Bearer root-1''), (''private'', JStr ''Bearer key-1'')]
   \<and> posts (snd (initialize_tokens (example_env (Json_body (JObj [])) (Inr []))
        (example_client (Some ''root-1'') (Some ''key-1'')) initial))
     = [Post ''https://api.tpeoficial.com/v1/dvr/tokens''
         (JObj [(''tokens'', JObj [(''root'', JStr ''Bearer root-1''), (''private'', JStr ''Bearer key-1'')])])]
   \<and> initialize_tokens (example_env (Json_body (JObj [])) (Inr [])) (example_client None None) initial
     = (Inr (), initial)"
proof -
  have b: "build_tokens (example_client (Some ''root-1'') (Some ''key-1''))
     = [(''root'', JStr ''Bearer root-1''), (''private'', JStr ''Bearer key-1'')]"
    by (simp add: eval_defs)
  have n: "\<not> (truthy_opt (tokens_response initial) \<and> tokens_verified initial)"
    by (simp add: initial_def)
  have p0: "posts initial = []" by (simp add: initial_def posts_def)
  have k: "root_api_key (example_client None None) = None \<and> api_key (example_client None None) = None"
    "base_url (example_client (Some ''root-1'') (Some ''key-1'')) = ''https://api.tpeoficial.com''"
    by (simp_all add: example_client_def)
  show ?thesis
    using verification_request[of "example_client (Some ''root-1'') (Some ''key-1'')" initial
        "example_env (Json_body (JObj [])) (Inr [])"]
      verification_request[of "example_client None None" initial
        "example_env (Json_body (JObj [])) (Inr [])"] b n p0 k
    by simp
qed

section \<open>Sending an email without configuration\<close>

text \<open>
  C8. With neither an email configuration nor a root key (both absent, or falsy),
  \<^verbatim>\<open>send_email\<close> logs \<^verbatim>\<open>You must configure the email client settings.\<close>, returns
  \<^verbatim>\<open>None\<close> and does nothing else: no capability function is called and nothing is
  sent.
\<close>

theorem send_email_unconfigured:
  assumes "\<not> truthy (server_email_config self)" and "\<not> truthy_str (root_api_key self)"
  shows "send_email env self data s =
           (Inr None, emit (Log_error ''You must configure the email client settings.'') s)
       \<and> network (snd (send_email env self data s)) = network s"
  using assms by (simp add: send_email_def)

theorem send_email_unconfigured_witness:
  "send_email (example_env (Json_body (JObj [])) (Inr [(''status'', JBool True)]))
     (example_client None (Some ''key-1'')) [(''to'', JStr ''a@example.com'')] initial
   = (Inr None, \<lparr>tokens_response = None, tokens_verified = False,
        trace = [Log_error ''You must configure the email client settings.'']\<rparr>)"
proof -
  let ?self = "example_client None (Some ''key-1'')"
  have no_config: "\<not> truthy (server_email_config ?self)"
    and no_root: "\<not> truthy_str (root_api_key ?self)"
    by (simp_all add: example_client_def)
  show ?thesis
    using send_email_unconfigured[OF no_config no_root,
        of "example_env (Json_body (JObj [])) (Inr [(''status'', JBool True)])"
           "[(''to'', JStr ''a@example.com'')]" initial]
    by (simp add: initial_def emit_def)
qed

section \<open>One cache for all clients\<close>

text \<open>
  C9. The cache belongs to the process. Once the construction of one client has left
  \<^verbatim>\<open>tokens_verified\<close> true, the construction of a second client, with any configuration
  and whatever the service would answer, returns the client, sends no verification
  request and leaves the first client's response in the cache.
\<close>

theorem second_client_shares_cache:
  assumes "reachable s" and "tokens_verified (snd (init env1 cfg1 s))"
  shows "fst (init env2 cfg2 (snd (init env1 cfg1 s))) = Inr (new_client env2 cfg2)
       \<and> posts (snd (init env2 cfg2 (snd (init env1 cfg1 s)))) = posts (snd (init env1 cfg1 s))
       \<and> tokens_response (snd (init env2 cfg2 (snd (init env1 cfg1 s))))
           = tokens_response (snd (init env1 cfg1 s))
       \<and> tokens_verified (snd (init env2 cfg2 (snd (init env1 cfg1 s))))"
proof -
  let ?s1 = "snd (init env1 cfg1 s)"
  have "reachable ?s1" using reachable.step[OF assms(1), of env1 "New cfg1"] by simp
  then have v: "verified ?s1" using assms(2) by (rule reachable_verified)
  from init_frame_verified[OF v, of env2 cfg2] assms(2)
  show ?thesis by (simp add: frame_def)
qed

theorem second_client_shares_cache_witness:
  "tokens_verified (snd (init (example_env (Json_body (JObj [(''private'', JBool True)])) (Inr []))
       (example_config None (Some ''key-1'')) initial))
   \<and> example_config None (Some ''key-1'') \<noteq> example_config (Some ''root-2'') (Some ''key-2'')
   \<and> length (posts (snd (init (example_env (Json_body (JObj [(''private'', JBool False)])) (Inr []))
       (example_config (Some ''root-2'') (Some ''key-2''))
       (snd (init (example_env (Json_body (JObj [(''private'', JBool True)])) (Inr []))
          (example_config None (Some ''key-1'')) initial))))) = 1
   \<and> tokens_response (snd (init (example_env (Json_body (JObj [(''private'', JBool False)])) (Inr []))
       (example_config (Some ''root-2'') (Some ''key-2''))
       (snd (init (example_env (Json_body (JObj [(''private'', JBool True)])) (Inr []))
          (example_config None (Some ''key-1'')) initial))))
     = Some (JObj [(''private'', JBool True)])"
proof -
  let ?e1 = "example_env (Json_body (JObj [(''private'', JBool True)])) (Inr [])"
  let ?c1 = "example_config None (Some ''key-1'')"
  have v: "tokens_verified (snd (init ?e1 ?c1 initial))" by (simp add: eval_defs)
  have d: "?c1 \<noteq> example_config (Some ''root-2'') (Some ''key-2'')"
    by (simp add: example_config_def)
  have p: "posts (snd (init ?e1 ?c1 initial)) =
      [Post ''https://api.tpeoficial.com/v1/dvr/tokens''
         (JObj [(''tokens'', JObj [(''private'', JStr ''Bearer key-1'')])])]"
    by (simp add: eval_defs)
  have r: "tokens_response (snd (init ?e1 ?c1 initial)) = Some (JObj [(''private'', JBool True)])"
    by (simp add: eval_defs)
  show ?thesis
    using second_client_shares_cache[OF reachable.start v,
        of "example_env (Json_body (JObj [(''private'', JBool False)])) (Inr [])"
           "example_config (Some ''root-2'') (Some ''key-2'')"] v d p r
    by simp
qed

section \<open>Renaming \<^verbatim>\<open>as\<close> and \<^verbatim>\<open>class\<close>\<close>

lemma dispatch_private:
  assumes "api_key self = Some k" and "has_module env ''private''"
    and "has_function env ''private'' f"
  shows "dispatch env self ''private'' f arg s =
           (run_function env ''private'' f (Some k) arg, emit (Call ''private'' f (Some k) arg) s)"
  using assms
  by (cases "run_function env ''private'' f (Some k) arg")
    (simp_all add: dispatch_def get_function_def DotDict_def)

lemma dispatch_private_absent:
  assumes "api_key self = None"
  shows "dispatch env self ''private'' f arg s =
           (Inl TypeError, emit (Log_error ''Invalid private token.'') s)"
  using assms by (simp add: dispatch_def get_function_def)

lemma rename_ip_truthy:
  assumes "map_of response ''ip'' = Some (JObj ip)" and "map_of ip ''as'' = Some a" and "truthy a"
    and "map_of ip ''class'' = Some c"
  shows "rename_ip response =
     Inr (AList.update ''ip''
            (JObj (AList.delete ''class'' (AList.delete ''as''
               (AList.update ''_class'' c (AList.update ''_as'' a ip))))) response)"
  using assms
  by (simp add: rename_ip_def py_item_def py_pop_def update_conv' delete_conv')

lemma rename_ip_no_class:
  assumes "map_of response ''ip'' = Some (JObj ip)" and "map_of ip ''as'' = Some a" and "truthy a"
    and "map_of ip ''class'' = None"
  shows "rename_ip response = Inl (KeyError ''class'')"
  using assms by (simp add: rename_ip_def py_item_def update_conv')

lemma rename_ip_falsy:
  assumes "map_of response ''ip'' = Some (JObj ip)" and "map_of ip ''as'' = Some a" and "\<not> truthy a"
  shows "rename_ip response = Inr response"
  using assms by (simp add: rename_ip_def)

text \<open>
  C4, at a concrete input. The payload's \<^verbatim>\<open>ip\<close> object holds \<^verbatim>\<open>as\<close> and
  \<^verbatim>\<open>class\<close>. \<^verbatim>\<open>is_valid_data\<close> moves the two values to the keys \<^verbatim>\<open>_as\<close> and
  \<^verbatim>\<open>_class\<close> and calls \<^verbatim>\<open>DataVerifierResponse\<close> with the result. But \<^verbatim>\<open>_as\<close> and
  \<^verbatim>\<open>_class\<close> start with an underscore, so they are not fields of \<^verbatim>\<open>DataVerifierIp\<close>,
  and \<^verbatim>\<open>as\<close> and \<^verbatim>\<open>class\<close> are no longer among the arguments: no field of the
  object that the call makes receives either value.
\<close>

theorem is_valid_data_renames_to_non_fields:
  "fst (is_valid_data
      (example_env (Json_body (JObj []))
         (Inr [(''email'', JNull), (''phone'', JNull), (''domain'', JNull), (''creditCard'', JNull),
               (''ip'', JObj [(''valid'', JBool True), (''as'', JStr ''AS15169 Google LLC''),
                              (''class'', JStr ''A''), (''isp'', JStr ''Google'')])]))
      (example_client None (Some ''key-1'')) (JObj [(''ip'', JStr ''8.8.8.8'')]) initial)
   = Inr (Some (Instance DataVerifierResponse
       [(''email'', JNull), (''phone'', JNull), (''domain'', JNull), (''creditCard'', JNull),
        (''ip'', JObj [(''valid'', JBool True), (''isp'', JStr ''Google''),
                       (''_as'', JStr ''AS15169 Google LLC''), (''_class'', JStr ''A'')])]))
   \<and> ''_as'' \<notin> set (model_fields DataVerifierIp_annotations)
   \<and> ''_class'' \<notin> set (model_fields DataVerifierIp_annotations)
   \<and> ''as'' \<notin> set (model_fields DataVerifierIp_annotations)
   \<and> ''class'' \<notin> set (model_fields DataVerifierIp_annotations)
   \<and> ''valid'' \<in> set (model_fields DataVerifierIp_annotations)
   \<and> ''isp'' \<in> set (model_fields DataVerifierIp_annotations)"
  by (simp add: eval_defs DataVerifierIp_annotations_def model_fields_def)

text \<open>
  C10. For a client with an API key: when the payload's \<^verbatim>\<open>ip\<close> object holds
  \<^verbatim>\<open>as\<close> with a truthy value and no \<^verbatim>\<open>class\<close>, \<^verbatim>\<open>is_valid_data\<close> raises
  \<^verbatim>\<open>KeyError('class')\<close> after the capability function was called, and returns no
  result.
\<close>

theorem is_valid_data_missing_class:
  assumes "api_key self = Some k" and "has_module env ''private''"
    and "has_function env ''private'' ''is_valid_data''"
    and "run_function env ''private'' ''is_valid_data'' (Some k) data = Inr response"
    and "map_of response ''ip'' = Some (JObj ip)"
    and "map_of ip ''as'' = Some a" and "truthy a" and "map_of ip ''class'' = None"
  shows "is_valid_data env self data s =
           (Inl (KeyError ''class''), emit (Call ''private'' ''is_valid_data'' (Some k) data) s)"
  by (simp add: is_valid_data_def dispatch_private[OF assms(1-3)] assms(4)
      rename_ip_no_class[OF assms(5-8)])

theorem is_valid_data_missing_class_witness:
  "is_valid_data
     (example_env (Json_body (JObj []))
        (Inr [(''ip'', JObj [(''valid'', JBool True), (''as'', JStr ''AS15169 Google LLC'')])]))
     (example_client None (Some ''key-1'')) (JObj [(''ip'', JStr ''8.8.8.8'')]) initial
   = (Inl (KeyError ''class''),
      \<lparr>tokens_response = None, tokens_verified = False,
       trace = [Call ''private'' ''is_valid_data'' (Some ''key-1'') (JObj [(''ip'', JStr ''8.8.8.8'')])]\<rparr>)"
proof -
  let ?ip = "[(''valid'', JBool True), (''as'', JStr ''AS15169 Google LLC'')]"
  let ?env = "example_env (Json_body (JObj [])) (Inr [(''ip'', JObj ?ip)])"
  let ?self = "example_client None (Some ''key-1'')"
  let ?data = "JObj [(''ip'', JStr ''8.8.8.8'')]"
  have key: "api_key ?self = Some ''key-1''" by (simp add: example_client_def)
  have found: "has_module ?env ''private''" "has_function ?env ''private'' ''is_valid_data''"
    by (simp_all add: example_env_def)
  have payload: "run_function ?env ''private'' ''is_valid_data'' (Some ''key-1'') ?data
      = Inr [(''ip'', JObj ?ip)]"
    by (simp add: example_env_def)
  have ip: "map_of [(''ip'', JObj ?ip)] ''ip'' = Some (JObj ?ip)" by simp
  have as: "map_of ?ip ''as'' = Some (JStr ''AS15169 Google LLC'')"
    "truthy (JStr ''AS15169 Google LLC'')" "map_of ?ip ''class'' = None"
    by simp_all
  show ?thesis
    using is_valid_data_missing_class[OF key found payload ip as, of initial]
    by (simp add: initial_def emit_def)
qed

section \<open>Private methods without an API key\<close>

text \<open>
  With \<^verbatim>\<open>api_key\<close> \<^verbatim>\<open>None\<close>, \<^verbatim>\<open>_get_function\<close> logs and returns \<^verbatim>\<open>None\<close>; each
  private method then calls that \<^verbatim>\<open>None\<close>. No capability function is called and
  nothing is sent, but the method raises \<^verbatim>\<open>TypeError\<close>.
\<close>

lemma private_methods_without_api_key:
  assumes "api_key self = None"
  shows "get_function env self ''private'' f s = (Inr None, emit (Log_error ''Invalid private token.'') s)"
    and "is_valid_data env self data s = (Inl TypeError, emit (Log_error ''Invalid private token.'') s)"
    and "get_random env self d s = (Inl TypeError, emit (Log_error ''Invalid private token.'') s)"
    and "truthy (server_email_config self) \<or> truthy_str (root_api_key self) \<Longrightarrow>
         send_email env self d s = (Inl TypeError, emit (Log_error ''Invalid private token.'') s)"
  using assms
  by (auto simp: get_function_def is_valid_data_def get_random_def send_email_def
      dispatch_private_absent)

text \<open>
  C2, at a concrete input: a client without credentials calls \<^verbatim>\<open>is_valid_data\<close>. The
  error is logged, nothing is sent, and the call ends in \<^verbatim>\<open>TypeError\<close> instead of
  returning.
\<close>

theorem private_method_without_api_key_raises:
  "is_valid_data (example_env (Json_body (JObj [])) (Inr [(''email'', JObj [(''valid'', JBool True)])]))
     (example_client None None) (JObj [(''email'', JStr ''a@example.com'')]) initial
   = (Inl TypeError,
      \<lparr>tokens_response = None, tokens_verified = False,
       trace = [Log_error ''Invalid private token.'']\<rparr>)"
  by (simp add: eval_defs)

section \<open>The class a method constructs\<close>

text \<open>
  \<^verbatim>\<open>get_random\<close> and \<^verbatim>\<open>send_email\<close> pass the payload unchanged, but to
  \<^verbatim>\<open>DataVerifierResponse\<close>, although they are annotated to return
  \<^verbatim>\<open>SRNGResponse\<close> and \<^verbatim>\<open>SendEmailResponse\<close>.
\<close>

lemma private_methods_construct:
  assumes "api_key self = Some k" and "has_module env ''private''"
  shows "has_function env ''private'' ''get_random'' \<Longrightarrow>
         run_function env ''private'' ''get_random'' (Some k) (JObj d) = Inr response \<Longrightarrow>
         fst (get_random env self d s) = Inr (Some (Instance DataVerifierResponse response))"
    and "has_function env ''private'' ''send_email'' \<Longrightarrow>
         truthy (server_email_config self) \<or> truthy_str (root_api_key self) \<Longrightarrow>
         run_function env ''private'' ''send_email'' (Some k)
           (JObj (AList.update ''serverEmailConfig'' (server_email_config self) d)) = Inr response \<Longrightarrow>
         fst (send_email env self d s) = Inr (Some (Instance DataVerifierResponse response))"
  using assms by (auto simp: get_random_def send_email_def dispatch_private)

text \<open>
  C5, at a concrete input: \<^verbatim>\<open>get_random\<close> with a payload of the random-number
  service constructs \<^verbatim>\<open>DataVerifierResponse\<close>, not \<^verbatim>\<open>SRNGResponse\<close>.
\<close>

theorem get_random_constructs_data_verifier_response:
  "fst (get_random
      (example_env (Json_body (JObj []))
         (Inr [(''values'', JArr [JObj [(''integer'', JInt 7), (''float'', JInt 7)]]), (''executionTime'', JInt 3)]))
      (example_client None (Some ''key-1'')) [(''min'', JInt 1), (''max'', JInt 10)] initial)
   = Inr (Some (Instance DataVerifierResponse
       [(''values'', JArr [JObj [(''integer'', JInt 7), (''float'', JInt 7)]]), (''executionTime'', JInt 3)]))
   \<and> DataVerifierResponse \<noteq> SRNGResponse"
  by (simp add: eval_defs)

text \<open>
  The four public methods pass the payload unchanged to the class they are annotated
  with.
\<close>

lemma public_methods_construct:
  assumes "has_module env ''public''"
  shows "has_function env ''public'' ''get_prayer_times'' \<Longrightarrow>
         run_function env ''public'' ''get_prayer_times'' None data = Inr response \<Longrightarrow>
         fst (get_prayer_times env self data s) = Inr (Some (Instance PrayerTimesResponse response))"
    and "has_function env ''public'' ''satinizer'' \<Longrightarrow>
         run_function env ''public'' ''satinizer'' None data = Inr response \<Longrightarrow>
         fst (satinizer env self data s) = Inr (Some (Instance SatinizerResponse response))"
    and "has_function env ''public'' ''is_valid_pwd'' \<Longrightarrow>
         run_function env ''public'' ''is_valid_pwd'' None data = Inr response \<Longrightarrow>
         fst (is_valid_pwd env self data s) = Inr (Some (Instance IsValidPwdResponse response))"
    and "has_function env ''public'' ''new_url_encrypt'' \<Longrightarrow>
         run_function env ''public'' ''new_url_encrypt'' None data = Inr response \<Longrightarrow>
         fst (new_url_encrypt env self data s) = Inr (Some (Instance UrlEncryptResponse response))"
  using assms
  by (auto simp: get_prayer_times_def satinizer_def is_valid_pwd_def new_url_encrypt_def
      public_method_def dispatch_def get_function_def DotDict_def)

end
